theory Spec2Isabelle
  imports Complex_Main
begin

section \<open>JavaScript values\<close>

text \<open>
  The service (\<^verbatim>\<open>src/server.js\<close>) receives JSON bodies and builds JSON responses.
  A value is what \<^verbatim>\<open>JSON.parse\<close> can produce, plus \<^verbatim>\<open>undefined\<close> for a property that
  is not there. Numbers are exact rationals: the rounding of IEEE doubles is not part of
  the model. An object is the list of its own properties, each key once. Strings are
  ASCII text.
\<close>

datatype js =
    JUndefined
  | JNull
  | JBool bool
  | JNum rat
  | JStr string
  | JArr "js list"
  | JObj "(string \<times> js) list"

datatype error = TypeError | ReferenceError | StorageError

text \<open>Truthiness, as \<^verbatim>\<open>!v\<close> and \<^verbatim>\<open>v || w\<close> test it.\<close>

fun truthy :: "js \<Rightarrow> bool" where
  "truthy JUndefined = False"
| "truthy JNull = False"
| "truthy (JBool b) = b"
| "truthy (JNum n) = (n \<noteq> 0)"
| "truthy (JStr s) = (s \<noteq> [])"
| "truthy (JArr xs) = True"
| "truthy (JObj kvs) = True"

text \<open>
  Reading a property \<^verbatim>\<open>v.k\<close>. On \<^verbatim>\<open>undefined\<close> and \<^verbatim>\<open>null\<close> it throws a TypeError. On an
  object it is the own property or \<^verbatim>\<open>undefined\<close>. The keys read by the service
  (\<^verbatim>\<open>offers\<close>, \<^verbatim>\<open>description\<close>, \<^verbatim>\<open>bankName\<close>, ...) are no built-in property of a boolean, a
  number, a string or an array, so there the result is \<^verbatim>\<open>undefined\<close>.
\<close>

fun get_prop :: "js \<Rightarrow> string \<Rightarrow> error + js" where
  "get_prop JUndefined k = Inl TypeError"
| "get_prop JNull k = Inl TypeError"
| "get_prop (JObj kvs) k = Inr (case map_of kvs k of None \<Rightarrow> JUndefined | Some v \<Rightarrow> v)"
| "get_prop v k = Inr JUndefined"

section \<open>The offer normalizer\<close>

subsection \<open>Characters\<close>

text \<open>The ASCII characters matched by the regular expression class \<^verbatim>\<open>\s\<close>.\<close>

definition is_space :: "char \<Rightarrow> bool" where
  "is_space c \<longleftrightarrow> c \<in> {CHR 0x09, CHR 0x0A, CHR 0x0B, CHR 0x0C, CHR 0x0D, CHR '' ''}"

definition is_upper :: "char \<Rightarrow> bool" where
  "is_upper c \<longleftrightarrow> (65::nat) \<le> of_char c \<and> of_char c \<le> (90::nat)"


definition lower_char :: "char \<Rightarrow> char" where
  "lower_char c = (if is_upper c then char_of (of_char c + (32::nat)) else c)"


definition toLowerCase :: "string \<Rightarrow> string" where
  "toLowerCase s = map lower_char s"


subsection \<open>createOfferId\<close>

text \<open>
  \<^verbatim>\<open>s.replace(/\s+/g, rep)\<close>: scanning from the left, every maximal run of white space is
  replaced by \<^verbatim>\<open>rep\<close>; the other characters are copied.
\<close>

function replace_space_runs :: "string \<Rightarrow> string \<Rightarrow> string" where
  "replace_space_runs rep [] = []"
| "replace_space_runs rep (c # cs) =
     (if is_space c then rep @ replace_space_runs rep (dropWhile is_space cs)
      else c # replace_space_runs rep cs)"
  by pat_completeness auto
termination
  by (relation "measure (\<lambda>(rep, s). length s)")
     (auto simp: length_dropWhile_le le_imp_less_Suc)

text \<open>
  \<^verbatim>\<open>description.replace(/\s+/g, '').toLowerCase()\<close>. Only a string has the method
  \<^verbatim>\<open>replace\<close>: on \<^verbatim>\<open>undefined\<close> and \<^verbatim>\<open>null\<close> the property read throws, on any other JSON
  value \<^verbatim>\<open>description.replace\<close> is not a function, and the call throws as well.
\<close>

fun createOfferId :: "js \<Rightarrow> error + string" where
  "createOfferId (JStr description) = Inr (toLowerCase (replace_space_runs [] description))"
| "createOfferId v = Inl TypeError"

subsection \<open>parseOffersFromPayload\<close>

text \<open>The arrow function given to \<^verbatim>\<open>map\<close>: one canonical object for one raw entry.\<close>

definition canonical_offer :: "js \<Rightarrow> error + js" where
  "canonical_offer rawOffer =
     (case get_prop rawOffer ''description'' of
        Inl e \<Rightarrow> Inl e
      | Inr description \<Rightarrow>
     (case createOfferId description of
        Inl e \<Rightarrow> Inl e
      | Inr oid \<Rightarrow>
     (case get_prop rawOffer ''bankName'' of Inl e \<Rightarrow> Inl e | Inr bankName \<Rightarrow>
     (case get_prop rawOffer ''paymentInstrument'' of Inl e \<Rightarrow> Inl e | Inr paymentInstrument \<Rightarrow>
     (case get_prop rawOffer ''discountType'' of Inl e \<Rightarrow> Inl e | Inr discountType \<Rightarrow>
     (case get_prop rawOffer ''discountValue'' of Inl e \<Rightarrow> Inl e | Inr discountValue \<Rightarrow>
     (case get_prop rawOffer ''maxDiscount'' of Inl e \<Rightarrow> Inl e | Inr maxDiscount \<Rightarrow>
     (case get_prop rawOffer ''minTxnValue'' of Inl e \<Rightarrow> Inl e | Inr minTxnValue \<Rightarrow>
        Inr (JObj
          [(''id'', JStr oid),
           (''description'', description),
           (''bankName'', bankName),
           (''paymentInstrument'', paymentInstrument),
           (''discountType'', discountType),
           (''discountValue'', discountValue),
           (''maxDiscount'', if truthy maxDiscount then maxDiscount else JNull),
           (''minTxnValue'', minTxnValue)])))))))))"

text \<open>\<^verbatim>\<open>Array.prototype.map\<close> with a callback that may throw: the first throw ends it.\<close>

fun map_throwing :: "('a \<Rightarrow> error + 'b) \<Rightarrow> 'a list \<Rightarrow> error + 'b list" where
  "map_throwing f [] = Inr []"
| "map_throwing f (x # xs) =
     (case f x of
        Inl e \<Rightarrow> Inl e
      | Inr y \<Rightarrow> (case map_throwing f xs of Inl e \<Rightarrow> Inl e | Inr ys \<Rightarrow> Inr (y # ys)))"

definition parseOffersFromPayload :: "js \<Rightarrow> error + js list" where
  "parseOffersFromPayload flipkartApiResponse =
     (if \<not> truthy flipkartApiResponse then Inr []
      else (case get_prop flipkartApiResponse ''offers'' of
              Inl e \<Rightarrow> Inl e
            | Inr (JArr offers) \<Rightarrow> map_throwing canonical_offer offers
            | Inr v \<Rightarrow> Inr []))"

section \<open>Storage\<close>

text \<open>
  Modelled from the spec: the MySQL table behind \<^verbatim>\<open>dbPool\<close> is not part of the repository.
  Section 4.2 of the specification gives its contract: a store keyed by \<^verbatim>\<open>id\<close> with
  "insert if absent, otherwise skip" in bulk, returning the number of rows newly
  inserted. A row is the list of its column values, \<^verbatim>\<open>id\<close> first, as the handler passes
  it to \<^verbatim>\<open>INSERT IGNORE\<close>.
\<close>

type_synonym store = "js list list"

definition row_key :: "js list \<Rightarrow> js" where
  "row_key row = (case row of [] \<Rightarrow> JUndefined | k # _ \<Rightarrow> k)"

fun insert_ignore :: "store \<Rightarrow> js list list \<Rightarrow> store \<times> nat" where
  "insert_ignore st [] = (st, 0)"
| "insert_ignore st (row # rows) =
     (if row_key row \<in> set (map row_key st) then insert_ignore st rows
      else (case insert_ignore (st @ [row]) rows of (st', n) \<Rightarrow> (st', Suc n)))"

text \<open>The same store as the query the handler awaits; this one never fails.\<close>

definition insert_query :: "store \<Rightarrow> js list list \<Rightarrow> error + store \<times> nat" where
  "insert_query st rows = Inr (insert_ignore st rows)"

section \<open>POST /offer\<close>

record response =
  status :: nat
  body :: js

definition error_response :: "nat \<Rightarrow> string \<Rightarrow> response" where
  "error_response code msg = \<lparr>status = code, body = JObj [(''error'', JStr msg)]\<rparr>"

definition counts_response :: "nat \<Rightarrow> nat \<Rightarrow> nat \<Rightarrow> response" where
  "counts_response code identified created =
     \<lparr>status = code,
      body = JObj [(''noOfOffersIdentified'', JNum (of_nat identified)),
                   (''noOfNewOffersCreated'', JNum (of_nat created))]\<rparr>"

text \<open>
  Reading an identifier. The scope lists the data bindings visible in the handler; the
  other names in scope there (the module's constants, \<^verbatim>\<open>req\<close>, \<^verbatim>\<open>res\<close>, the globals of
  Node) are spelled differently from every name looked up below. A name bound nowhere
  throws a ReferenceError.
\<close>

definition resolve :: "(string \<times> js) list \<Rightarrow> string \<Rightarrow> error + js" where
  "resolve scope name = (case map_of scope name of None \<Rightarrow> Inl ReferenceError | Some v \<Rightarrow> Inr v)"

text \<open>An identified offer \<^verbatim>\<open>o\<close> as the array \<^verbatim>\<open>[o.id, o.description, ...]\<close> (line 65).\<close>

definition field :: "js \<Rightarrow> string \<Rightarrow> js" where
  "field v k = (case get_prop v k of Inl e \<Rightarrow> JUndefined | Inr w \<Rightarrow> w)"

definition offer_values :: "js \<Rightarrow> js list" where
  "offer_values offer =
     [field offer ''id'', field offer ''description'', field offer ''bankName'',
      field offer ''paymentInstrument'', field offer ''discountType'',
      field offer ''discountValue'', field offer ''maxDiscount'', field offer ''minTxnValue'']"

text \<open>
  Lines 52 to 72: what the handler does with the value of \<^verbatim>\<open>flipkartApiResponse\<close> once
  the guard of line 48 has let it through. \<^verbatim>\<open>query\<close> is \<^verbatim>\<open>dbPool.query\<close> with the
  \<^verbatim>\<open>INSERT IGNORE\<close> statement: it fails, or returns the new store and \<^verbatim>\<open>affectedRows\<close>.
\<close>

definition store_offers ::
  "('s \<Rightarrow> js list list \<Rightarrow> error + 's \<times> nat) \<Rightarrow> 's \<Rightarrow> js \<Rightarrow> (error + response) \<times> 's" where
  "store_offers query s flipkartApiResponse =
     (case parseOffersFromPayload flipkartApiResponse of
        Inl e \<Rightarrow> (Inl e, s)
      | Inr identifiedOffers \<Rightarrow>
          if length identifiedOffers = 0 then (Inr (counts_response 200 0 0), s)
          else (case query s (map offer_values identifiedOffers) of
                  Inl e \<Rightarrow> (Inl e, s)
                | Inr (s', affectedRows) \<Rightarrow>
                    (Inr (counts_response 201 (length identifiedOffers) affectedRows), s')))"

text \<open>
  The body of the \<^verbatim>\<open>try\<close> block. Line 47 binds \<^verbatim>\<open>flipkartOfferApiResponse\<close>; lines 48
  and 52 read \<^verbatim>\<open>flipkartApiResponse\<close>.
\<close>

definition post_offer_try ::
  "('s \<Rightarrow> js list list \<Rightarrow> error + 's \<times> nat) \<Rightarrow> 's \<Rightarrow> js \<Rightarrow> (error + response) \<times> 's" where
  "post_offer_try query s req_body =
     (case get_prop req_body ''flipkartOfferApiResponse'' of
        Inl e \<Rightarrow> (Inl e, s)
      | Inr flipkartOfferApiResponse \<Rightarrow>
          (case resolve [(''flipkartOfferApiResponse'', flipkartOfferApiResponse)]
                  ''flipkartApiResponse'' of
             Inl e \<Rightarrow> (Inl e, s)
           | Inr flipkartApiResponse \<Rightarrow>
               if \<not> truthy flipkartApiResponse
               then (Inr (error_response 400
                       ''Missing flipkartOfferApiResponse in request body.''), s)
               else store_offers query s flipkartApiResponse))"

text \<open>The \<^verbatim>\<open>catch\<close> block turns whatever the \<^verbatim>\<open>try\<close> block threw into a 500.\<close>

definition post_offer_catch :: "(error + response) \<times> 's \<Rightarrow> response \<times> 's" where
  "post_offer_catch outcome =
     (case outcome of
        (Inl e, s') \<Rightarrow>
          (error_response 500 ''An internal server error occurred while saving offers.'', s')
      | (Inr r, s') \<Rightarrow> (r, s'))"

definition post_offer ::
  "('s \<Rightarrow> js list list \<Rightarrow> error + 's \<times> nat) \<Rightarrow> 's \<Rightarrow> js \<Rightarrow> response \<times> 's" where
  "post_offer query s req_body = post_offer_catch (post_offer_try query s req_body)"

section \<open>GET /highest-discount\<close>

subsection \<open>Numbers\<close>

text \<open>
  A JavaScript number in the handler: a finite value, an infinity or NaN. Finite
  arithmetic is exact, and the two zeros are one.
\<close>

datatype jsnum = NaN | NegInf | Fin rat | PosInf


fun js_mul :: "jsnum \<Rightarrow> jsnum \<Rightarrow> jsnum" where
  "js_mul (Fin x) (Fin y) = Fin (x * y)"
| "js_mul (Fin x) PosInf = (if x = 0 then NaN else if 0 < x then PosInf else NegInf)"
| "js_mul (Fin x) NegInf = (if x = 0 then NaN else if 0 < x then NegInf else PosInf)"
| "js_mul PosInf (Fin y) = (if y = 0 then NaN else if 0 < y then PosInf else NegInf)"
| "js_mul NegInf (Fin y) = (if y = 0 then NaN else if 0 < y then NegInf else PosInf)"
| "js_mul PosInf PosInf = PosInf"
| "js_mul PosInf NegInf = NegInf"
| "js_mul NegInf PosInf = NegInf"
| "js_mul NegInf NegInf = PosInf"
| "js_mul NaN b = NaN"
| "js_mul a NaN = NaN"

text \<open>\<^verbatim>\<open>a > b\<close>: false whenever NaN is involved.\<close>

fun js_gt :: "jsnum \<Rightarrow> jsnum \<Rightarrow> bool" where
  "js_gt (Fin x) (Fin y) = (y < x)"
| "js_gt PosInf (Fin y) = True"
| "js_gt PosInf NegInf = True"
| "js_gt (Fin x) NegInf = True"
| "js_gt a b = False"


subsection \<open>parseFloat\<close>









subsection \<open>toFixed\<close>



subsection \<open>The discount selector\<close>

text \<open>
  A row of the table \<^verbatim>\<open>offers\<close> as the \<^verbatim>\<open>SELECT\<close> returns it: text columns as strings,
  numeric columns as numbers, and \<^verbatim>\<open>maxDiscount\<close> a number or \<^verbatim>\<open>null\<close>.
\<close>

record offer_row =
  offer_id :: string
  description :: string
  bankName :: string
  paymentInstrument :: string
  discountType :: string
  discountValue :: rat
  maxDiscount :: "rat option"
  minTxnValue :: rat

text \<open>Lines 111 to 119: the discount of one offer for the amount.\<close>

definition current_discount :: "jsnum \<Rightarrow> offer_row \<Rightarrow> jsnum" where
  "current_discount parsedAmount offer =
     (if discountType offer = ''FLAT'' then Fin (discountValue offer)
      else if discountType offer = ''PERCENTAGE'' then
        (let currentDiscount = js_mul (Fin (discountValue offer / 100)) parsedAmount in
         case maxDiscount offer of
           None \<Rightarrow> currentDiscount
         | Some m \<Rightarrow> if m \<noteq> 0 \<and> js_gt currentDiscount (Fin m) then Fin m else currentDiscount)
      else Fin 0)"






subsection \<open>The handler\<close>



section \<open>Notions used to state the properties\<close>



text \<open>An entry of the offers array has a string description.\<close>

definition has_string_description :: "js \<Rightarrow> bool" where
  "has_string_description entry =
     (case get_prop entry ''description'' of Inr (JStr d) \<Rightarrow> True | _ \<Rightarrow> False)"

text \<open>
  The scenario of the specification: a payload with one FLAT offer of 100 for AXIS credit
  cards from 500 on, the request body that carries it, and the row it would be stored as.
\<close>

definition scenario_offer :: js where
  "scenario_offer =
     JObj [(''description'', JStr ''Flat 100 off on AXIS credit cards''),
           (''bankName'', JStr ''AXIS''),
           (''paymentInstrument'', JStr ''CREDIT''),
           (''discountType'', JStr ''FLAT''),
           (''discountValue'', JNum 100),
           (''minTxnValue'', JNum 500)]"

definition scenario_payload :: js where
  "scenario_payload = JObj [(''offers'', JArr [scenario_offer])]"

definition scenario_body :: js where
  "scenario_body = JObj [(''flipkartOfferApiResponse'', scenario_payload)]"

definition scenario_row :: "js list" where
  "scenario_row =
     [JStr ''flat100offonaxiscreditcards'', JStr ''Flat 100 off on AXIS credit cards'',
      JStr ''AXIS'', JStr ''CREDIT'', JStr ''FLAT'', JNum 100, JNull, JNum 500]"

text \<open>Rows and an entry used as examples: a FLAT offer, and PERCENTAGE offers with a cap
  of 50 and with a cap of 0.\<close>

definition flat_row :: offer_row where
  "flat_row =
     \<lparr>offer_id = ''flat100offonaxiscreditcards'',
      description = ''Flat 100 off on AXIS credit cards'',
      bankName = ''AXIS'', paymentInstrument = ''CREDIT'', discountType = ''FLAT'',
      discountValue = 100, maxDiscount = None, minTxnValue = 500\<rparr>"

definition capped_row :: offer_row where
  "capped_row =
     \<lparr>offer_id = ''10%offupto50'', description = ''10% off up to 50'',
      bankName = ''AXIS'', paymentInstrument = ''CREDIT'', discountType = ''PERCENTAGE'',
      discountValue = 10, maxDiscount = Some 50, minTxnValue = 0\<rparr>"

definition zero_cap_row :: offer_row where
  "zero_cap_row =
     \<lparr>offer_id = ''10%off'', description = ''10% off'',
      bankName = ''AXIS'', paymentInstrument = ''CREDIT'', discountType = ''PERCENTAGE'',
      discountValue = 10, maxDiscount = Some 0, minTxnValue = 0\<rparr>"

definition zero_cap_entry :: js where
  "zero_cap_entry =
     JObj [(''description'', JStr ''10% off''), (''bankName'', JStr ''AXIS''),
           (''paymentInstrument'', JStr ''CREDIT''), (''discountType'', JStr ''PERCENTAGE''),
           (''discountValue'', JNum 10), (''maxDiscount'', JNum 0), (''minTxnValue'', JNum 0)]"













section \<open>The identity key\<close>














section \<open>The normalizer on the offers array\<close>

lemma string_description_object:
  assumes "has_string_description entry"
  obtains kvs d where "entry = JObj kvs" "map_of kvs ''description'' = Some (JStr d)"
proof (cases entry)
  case (JObj kvs)
  with assms obtain d where "map_of kvs ''description'' = Some (JStr d)"
    unfolding has_string_description_def
    by (cases "map_of kvs ''description''") (auto split: js.splits)
  with JObj that show ?thesis by blast
qed (use assms in \<open>simp_all add: has_string_description_def\<close>)

lemma canonical_offer_returns:
  assumes "has_string_description entry"
  shows "\<exists>c. canonical_offer entry = Inr c"
  using assms
proof (rule string_description_object)
  fix kvs d
  assume "entry = JObj kvs" "map_of kvs ''description'' = Some (JStr d)"
  then show ?thesis by (simp add: canonical_offer_def)
qed

lemma get_prop_error: "get_prop v k = Inl e \<Longrightarrow> e = TypeError"
  by (cases v) simp_all

lemma createOfferId_throws: "(\<forall>d. v \<noteq> JStr d) \<Longrightarrow> createOfferId v = Inl TypeError"
  by (cases v) simp_all

lemma canonical_offer_throws:
  assumes "\<not> has_string_description entry"
  shows "canonical_offer entry = Inl TypeError"
proof (cases "get_prop entry ''description''")
  case (Inl e)
  then have "e = TypeError" by (rule get_prop_error)
  with Inl show ?thesis by (simp add: canonical_offer_def)
next
  case (Inr v)
  with assms have "\<forall>d. v \<noteq> JStr d"
    unfolding has_string_description_def by auto
  then have "createOfferId v = Inl TypeError" by (rule createOfferId_throws)
  with Inr show ?thesis by (simp add: canonical_offer_def)
qed

lemma map_throwing_returns:
  "(\<forall>x\<in>set xs. \<exists>y. f x = Inr y) \<Longrightarrow>
     \<exists>ys. map_throwing f xs = Inr ys \<and> list_all2 (\<lambda>x y. f x = Inr y) xs ys"
proof (induction xs)
  case Nil
  show ?case by simp
next
  case (Cons x xs)
  from Cons.prems obtain y where y: "f x = Inr y" by auto
  from Cons obtain ys where ys: "map_throwing f xs = Inr ys"
    "list_all2 (\<lambda>x y. f x = Inr y) xs ys" by auto
  from y ys show ?case by simp
qed

lemma map_throwing_throws:
  assumes "\<exists>x\<in>set xs. \<exists>e'. f x = Inl e'" "\<forall>x\<in>set xs. \<forall>e'. f x = Inl e' \<longrightarrow> e' = e"
  shows "map_throwing f xs = Inl e"
  using assms
proof (induction xs)
  case Nil
  then show ?case by simp
next
  case (Cons x xs)
  show ?case
  proof (cases "f x")
    case (Inl e')
    with Cons.prems(2) have "e' = e" by simp
    with Inl show ?thesis by simp
  next
    case (Inr y)
    with Cons.prems(1) have "\<exists>x\<in>set xs. \<exists>e'. f x = Inl e'" by auto
    moreover from Cons.prems(2) have "\<forall>x\<in>set xs. \<forall>e'. f x = Inl e' \<longrightarrow> e' = e" by simp
    ultimately have "map_throwing f xs = Inl e" by (rule Cons.IH)
    with Inr show ?thesis by simp
  qed
qed

lemma parse_of_array:
  assumes "get_prop payload ''offers'' = Inr (JArr offers)"
  shows "parseOffersFromPayload payload = map_throwing canonical_offer offers"
proof (cases payload)
  case (JObj kvs)
  with assms show ?thesis by (simp add: parseOffersFromPayload_def)
qed (use assms in simp_all)

lemma resolve_unbound:
  "resolve [(''flipkartOfferApiResponse'', v)] ''flipkartApiResponse'' = Inl ReferenceError"
  by (simp add: resolve_def)

lemma post_offer_always_throws:
  "post_offer query s req_body =
     (error_response 500 ''An internal server error occurred while saving offers.'', s)"
proof (cases "get_prop req_body ''flipkartOfferApiResponse''")
  case (Inl e)
  then show ?thesis by (simp add: post_offer_def post_offer_catch_def post_offer_try_def)
next
  case (Inr v)
  then show ?thesis by (simp add: post_offer_def post_offer_catch_def post_offer_try_def resolve_unbound)
qed

lemma store_offers_throws:
  "parseOffersFromPayload payload = Inl e \<Longrightarrow> store_offers query s payload = (Inl e, s)"
  by (simp add: store_offers_def)

text \<open>
  C10. On a payload with an offers array, \<^verbatim>\<open>parseOffersFromPayload\<close> returns one
  canonical record per entry, in payload order, when every entry has a string
  description. When some entry has none, it throws a TypeError and returns no record;
  thrown inside the \<^verbatim>\<open>try\<close> block of POST /offer this becomes a 500, and the endpoint
  answers 500 and leaves the store as it was.
\<close>

theorem parseOffersFromPayload_total_iff_string_descriptions:
  assumes "get_prop payload ''offers'' = Inr (JArr offers)"
  shows "((\<forall>entry\<in>set offers. has_string_description entry) \<longrightarrow>
           (\<exists>records. parseOffersFromPayload payload = Inr records \<and>
              list_all2 (\<lambda>entry record. canonical_offer entry = Inr record) offers records)) \<and>
         ((\<exists>entry\<in>set offers. \<not> has_string_description entry) \<longrightarrow>
            parseOffersFromPayload payload = Inl TypeError \<and>
            post_offer_catch (store_offers query s payload) =
              (error_response 500 ''An internal server error occurred while saving offers.'', s) \<and>
            (get_prop req_body ''flipkartOfferApiResponse'' = Inr payload \<longrightarrow>
               status (fst (post_offer query s req_body)) = 500 \<and>
               snd (post_offer query s req_body) = s))"
proof (intro conjI impI)
  assume "\<forall>entry\<in>set offers. has_string_description entry"
  then have "\<forall>entry\<in>set offers. \<exists>record. canonical_offer entry = Inr record"
    using canonical_offer_returns by blast
  then show "\<exists>records. parseOffersFromPayload payload = Inr records \<and>
      list_all2 (\<lambda>entry record. canonical_offer entry = Inr record) offers records"
    unfolding parse_of_array [OF assms] by (rule map_throwing_returns)
next
  assume bad: "\<exists>entry\<in>set offers. \<not> has_string_description entry"
  then have "\<exists>entry\<in>set offers. \<exists>e'. canonical_offer entry = Inl e'"
    using canonical_offer_throws by blast
  moreover have "\<forall>entry\<in>set offers. \<forall>e'. canonical_offer entry = Inl e' \<longrightarrow> e' = TypeError"
    using canonical_offer_throws canonical_offer_returns by (metis sum.inject(1) Inl_Inr_False)
  ultimately have "map_throwing canonical_offer offers = Inl TypeError"
    by (rule map_throwing_throws)
  then show p: "parseOffersFromPayload payload = Inl TypeError"
    by (simp only: parse_of_array [OF assms])
  then show "post_offer_catch (store_offers query s payload) =
      (error_response 500 ''An internal server error occurred while saving offers.'', s)"
    by (simp add: store_offers_throws post_offer_catch_def)
  show "status (fst (post_offer query s req_body)) = 500"
    by (simp add: post_offer_always_throws error_response_def)
  show "snd (post_offer query s req_body) = s"
    by (simp add: post_offer_always_throws)
qed


theorem parseOffersFromPayload_total_iff_string_descriptions_witness:
  "has_string_description (JObj [(''description'', JStr ''Flat 100 off'')]) \<and>
   has_string_description (JObj [(''description'', JStr ''10% off'')]) \<and>
   (\<exists>records. parseOffersFromPayload
        (JObj [(''offers'', JArr [JObj [(''description'', JStr ''Flat 100 off'')],
                                  JObj [(''description'', JStr ''10% off'')]])]) = Inr records \<and>
      length records = 2) \<and>
   \<not> has_string_description (JObj [(''description'', JNum 5)]) \<and>
   parseOffersFromPayload
     (JObj [(''offers'', JArr [JObj [(''description'', JStr ''Flat 100 off'')],
                               JObj [(''description'', JNum 5)]])]) = Inl TypeError"
proof -
  let ?good = "[JObj [(''description'', JStr ''Flat 100 off'')],
                JObj [(''description'', JStr ''10% off'')]]"
  let ?bad = "[JObj [(''description'', JStr ''Flat 100 off'')],
               JObj [(''description'', JNum 5)]]"
  have s1: "has_string_description (JObj [(''description'', JStr ''Flat 100 off'')])"
    and s2: "has_string_description (JObj [(''description'', JStr ''10% off'')])"
    and n3: "\<not> has_string_description (JObj [(''description'', JNum 5)])"
    by (simp_all add: has_string_description_def)
  have g1: "get_prop (JObj [(''offers'', JArr ?good)]) ''offers'' = Inr (JArr ?good)"
    by simp
  have g2: "\<forall>entry\<in>set ?good. has_string_description entry"
    using s1 s2 by simp
  have b1: "get_prop (JObj [(''offers'', JArr ?bad)]) ''offers'' = Inr (JArr ?bad)"
    by simp
  have b2: "\<exists>entry\<in>set ?bad. \<not> has_string_description entry"
    using n3 by simp
  note good = parseOffersFromPayload_total_iff_string_descriptions
    [OF g1, THEN conjunct1, THEN mp, OF g2]
  then obtain records where r:
    "parseOffersFromPayload (JObj [(''offers'', JArr ?good)]) = Inr records"
    "list_all2 (\<lambda>entry r. canonical_offer entry = Inr r) ?good records"
    by (elim exE conjE)
  have "length ?good = length records" using r(2) by (rule list_all2_lengthD)
  then have "length records = 2" by simp
  with r(1) have g3: "\<exists>records. parseOffersFromPayload (JObj [(''offers'', JArr ?good)]) = Inr records \<and>
      length records = 2"
    by (intro exI conjI)
  note b3 = parseOffersFromPayload_total_iff_string_descriptions
    [OF b1, THEN conjunct2, THEN mp, OF b2, THEN conjunct1]
  show ?thesis by (intro conjI s1 s2 g3 n3 b3)
qed

section \<open>POST /offer as written\<close>

text \<open>
  Against the store of the specification, lines 52 to 72 store the scenario's offer and
  count it once, and count nothing new when the same payload comes again.
\<close>

lemma insert_ignore_keys:
  "set (map row_key (fst (insert_ignore st rows))) = set (map row_key st) \<union> set (map row_key rows)"
proof (induction rows arbitrary: st)
  case Nil
  show ?case by simp
next
  case (Cons row rows)
  show ?case
  proof (cases "row_key row \<in> set (map row_key st)")
    case True
    then show ?thesis using Cons.IH [of st] by auto
  next
    case False
    then show ?thesis using Cons.IH [of "st @ [row]"] by (auto split: prod.splits)
  qed
qed

lemma insert_ignore_present:
  "set (map row_key rows) \<subseteq> set (map row_key st) \<Longrightarrow> insert_ignore st rows = (st, 0)"
  by (induction rows) auto

lemma insert_ignore_again:
  "insert_ignore (fst (insert_ignore st rows)) rows = (fst (insert_ignore st rows), 0)"
proof (rule insert_ignore_present)
  show "set (map row_key rows) \<subseteq> set (map row_key (fst (insert_ignore st rows)))"
    unfolding insert_ignore_keys by (rule Un_upper2)
qed

lemma store_offers_again:
  assumes "store_offers insert_query st payload = (Inr r, st')"
  shows "\<exists>n. store_offers insert_query st' payload = (Inr (counts_response (status r) n 0), st')"
proof (cases "parseOffersFromPayload payload")
  case (Inl e)
  with assms show ?thesis by (simp add: store_offers_def)
next
  case (Inr identifiedOffers)
  show ?thesis
  proof (cases "length identifiedOffers = 0")
    case True
    with Inr assms show ?thesis by (auto simp: store_offers_def counts_response_def)
  next
    case False
    with Inr assms have st': "st' = fst (insert_ignore st (map offer_values identifiedOffers))"
      and r: "status r = 201"
      by (auto simp: store_offers_def insert_query_def counts_response_def split: prod.splits)
    from False Inr show ?thesis
      unfolding st' r
      by (auto simp add: store_offers_def insert_query_def insert_ignore_again)
  qed
qed

lemma scenario_parse:
  "parseOffersFromPayload scenario_payload =
     Inr [JObj [(''id'', JStr ''flat100offonaxiscreditcards''),
                (''description'', JStr ''Flat 100 off on AXIS credit cards''),
                (''bankName'', JStr ''AXIS''),
                (''paymentInstrument'', JStr ''CREDIT''),
                (''discountType'', JStr ''FLAT''),
                (''discountValue'', JNum 100),
                (''maxDiscount'', JNull),
                (''minTxnValue'', JNum 500)]]"
  by code_simp

lemma store_offers_scenario:
  "post_offer_catch (store_offers insert_query [] scenario_payload) =
     (counts_response 201 1 1, [scenario_row])"
  by (simp add: store_offers_def scenario_parse insert_query_def offer_values_def field_def
      row_key_def post_offer_catch_def scenario_row_def)

lemma store_offers_scenario_again:
  "post_offer_catch (store_offers insert_query [scenario_row] scenario_payload) =
     (counts_response 201 1 0, [scenario_row])"
  by (simp add: store_offers_def scenario_parse insert_query_def offer_values_def field_def
      row_key_def post_offer_catch_def scenario_row_def)

text \<open>
  C1. The claim: a request with a well-formed \<^verbatim>\<open>flipkartOfferApiResponse\<close>, a non-empty
  offers array and a successful insert is answered 201 with the two counts. The handler
  reads the unbound name \<^verbatim>\<open>flipkartApiResponse\<close> on line 48, so the scenario's request is
  answered 500 and nothing is stored.
\<close>

theorem post_offer_scenario_answers_500:
  "post_offer insert_query [] scenario_body =
     (error_response 500 ''An internal server error occurred while saving offers.'', []) \<and>
   status (fst (post_offer insert_query [] scenario_body)) \<noteq> 201"
  by (simp add: post_offer_always_throws error_response_def)

text \<open>
  C2. The claim: a body without \<^verbatim>\<open>flipkartOfferApiResponse\<close> is answered 400 and the
  store is not touched. The store is not touched, but the answer is 500: the guard that
  would answer 400 throws before it tests anything.
\<close>

theorem post_offer_missing_field_answers_500:
  "post_offer query s (JObj []) =
     (error_response 500 ''An internal server error occurred while saving offers.'', s) \<and>
   status (fst (post_offer query s (JObj []))) \<noteq> 400"
  by (simp add: post_offer_always_throws error_response_def)

text \<open>
  C7. The claim: ingesting a payload again into a store that holds its offers reports
  \<^verbatim>\<open>noOfNewOffersCreated = 0\<close> and leaves the store as it is. The store is left as it
  is, but the answer is the 500 error body, which has no \<^verbatim>\<open>noOfNewOffersCreated\<close>.
\<close>

theorem post_offer_second_ingestion_answers_500:
  "post_offer insert_query [scenario_row] scenario_body =
     (error_response 500 ''An internal server error occurred while saving offers.'',
      [scenario_row]) \<and>
   field (body (fst (post_offer insert_query [scenario_row] scenario_body)))
     ''noOfNewOffersCreated'' = JUndefined"
  by (simp add: post_offer_always_throws error_response_def field_def)

section \<open>The discount of one offer\<close>

text \<open>
  C5. For a FLAT offer the computed discount is \<^verbatim>\<open>discountValue\<close> as it is, whatever the
  amount. (That \<^verbatim>\<open>minTxnValue\<close> is at most the amount is what the query selects; the
  computation does not look at it.)
\<close>

theorem flat_discount_verbatim:
  "discountType offer = ''FLAT'' \<Longrightarrow>
     current_discount parsedAmount offer = Fin (discountValue offer)"
  by (simp add: current_discount_def)

theorem flat_discount_verbatim_witness:
  "discountType flat_row = ''FLAT'' \<and> current_discount (Fin 1000) flat_row = Fin 100"
proof -
  have h: "discountType flat_row = ''FLAT''" by (simp add: flat_row_def)
  have v: "discountValue flat_row = 100" by (simp add: flat_row_def)
  from h flat_discount_verbatim [OF h, of "Fin 1000"] v show ?thesis by simp
qed

text \<open>
  C3 as stated fails: with a stored \<^verbatim>\<open>maxDiscount\<close> of 0, which is present, the discount
  of 10 percent on 1000 is 100 and not \<open>min 100 0\<close>, since line 116 tests the cap for
  truthiness.
\<close>

theorem percentage_cap_zero_counterexample:
  "discountType zero_cap_row = ''PERCENTAGE'' \<and> maxDiscount zero_cap_row = Some 0 \<and>
   current_discount (Fin 1000) zero_cap_row = Fin 100 \<and>
   current_discount (Fin 1000) zero_cap_row \<noteq>
     Fin (min (discountValue zero_cap_row / 100 * 1000) 0)"
  by (simp add: zero_cap_row_def current_discount_def)

text \<open>
  C3, amended. For a PERCENTAGE offer and a finite amount the computed discount is
  \<open>min (discountValue / 100 * amount) maxDiscount\<close> when \<^verbatim>\<open>maxDiscount\<close> is present and
  not zero, and \<open>discountValue / 100 * amount\<close> when it is absent or zero; with 10, a cap
  of 50 and 1000 it is 50.
\<close>

theorem percentage_discount_capped:
  "discountType offer = ''PERCENTAGE'' \<Longrightarrow>
     current_discount (Fin amount) offer =
       (case maxDiscount offer of
          None \<Rightarrow> Fin (discountValue offer / 100 * amount)
        | Some m \<Rightarrow>
            if m = 0 then Fin (discountValue offer / 100 * amount)
            else Fin (min (discountValue offer / 100 * amount) m))"
  by (simp add: current_discount_def min_def split: option.splits)

theorem percentage_discount_capped_witness:
  "discountType capped_row = ''PERCENTAGE'' \<and> current_discount (Fin 1000) capped_row = Fin 50"
proof -
  have h: "discountType capped_row = ''PERCENTAGE''" by (simp add: capped_row_def)
  have "maxDiscount capped_row = Some 50" "discountValue capped_row = 10"
    by (simp_all add: capped_row_def)
  with h percentage_discount_capped [OF h, of 1000] show ?thesis by simp
qed

section \<open>Falsy caps\<close>

lemma canonical_offer_maxDiscount:
  assumes "canonical_offer rawOffer = Inr canon"
    and "get_prop rawOffer ''maxDiscount'' = Inr m"
  shows "field canon ''maxDiscount'' = (if truthy m then m else JNull)"
proof -
  from assms(2) obtain d b p t v n where g:
    "get_prop rawOffer ''description'' = Inr d"
    "get_prop rawOffer ''bankName'' = Inr b"
    "get_prop rawOffer ''paymentInstrument'' = Inr p"
    "get_prop rawOffer ''discountType'' = Inr t"
    "get_prop rawOffer ''discountValue'' = Inr v"
    "get_prop rawOffer ''minTxnValue'' = Inr n"
    by (cases rawOffer) simp_all
  show ?thesis
  proof (cases "createOfferId d")
    case (Inl e)
    with assms(1) g show ?thesis by (simp add: canonical_offer_def)
  next
    case (Inr oid)
    with assms g have "canon = JObj
          [(''id'', JStr oid), (''description'', d), (''bankName'', b),
           (''paymentInstrument'', p), (''discountType'', t), (''discountValue'', v),
           (''maxDiscount'', if truthy m then m else JNull), (''minTxnValue'', n)]"
      by (simp add: canonical_offer_def)
    then show ?thesis by (simp add: field_def)
  qed
qed

text \<open>
  C9. The normalizer stores \<^verbatim>\<open>null\<close> for every falsy \<^verbatim>\<open>maxDiscount\<close> of the payload, an
  explicit 0 as well as a missing field, and the selector computes a PERCENTAGE offer
  whose stored \<^verbatim>\<open>maxDiscount\<close> is \<^verbatim>\<open>null\<close> or 0 without a cap.
\<close>

theorem falsy_maxDiscount_is_no_cap:
  "(canonical_offer rawOffer = Inr canon \<and> get_prop rawOffer ''maxDiscount'' = Inr m \<and>
      \<not> truthy m \<longrightarrow> field canon ''maxDiscount'' = JNull) \<and>
   \<not> truthy (JNum 0) \<and> \<not> truthy JUndefined \<and>
   (discountType offer = ''PERCENTAGE'' \<and>
      (maxDiscount offer = None \<or> maxDiscount offer = Some 0) \<longrightarrow>
      current_discount parsedAmount offer = js_mul (Fin (discountValue offer / 100)) parsedAmount)"
proof (intro conjI impI)
  assume "canonical_offer rawOffer = Inr canon \<and> get_prop rawOffer ''maxDiscount'' = Inr m \<and>
      \<not> truthy m"
  then show "field canon ''maxDiscount'' = JNull"
    using canonical_offer_maxDiscount [of rawOffer canon m] by simp
next
  assume "discountType offer = ''PERCENTAGE'' \<and>
      (maxDiscount offer = None \<or> maxDiscount offer = Some 0)"
  then show "current_discount parsedAmount offer =
      js_mul (Fin (discountValue offer / 100)) parsedAmount"
    by (auto simp add: current_discount_def)
qed simp_all

lemma zero_cap_entry_record:
  "canonical_offer zero_cap_entry =
     Inr (JObj [(''id'', JStr ''10%off''), (''description'', JStr ''10% off''),
                (''bankName'', JStr ''AXIS''), (''paymentInstrument'', JStr ''CREDIT''),
                (''discountType'', JStr ''PERCENTAGE''), (''discountValue'', JNum 10),
                (''maxDiscount'', JNull), (''minTxnValue'', JNum 0)])"
  by code_simp

theorem falsy_maxDiscount_is_no_cap_witness:
  "get_prop zero_cap_entry ''maxDiscount'' = Inr (JNum 0) \<and>
   (\<exists>canon. canonical_offer zero_cap_entry = Inr canon \<and>
      field canon ''maxDiscount'' = JNull) \<and>
   discountType zero_cap_row = ''PERCENTAGE'' \<and> maxDiscount zero_cap_row = Some 0 \<and>
   current_discount (Fin 1000) zero_cap_row = Fin 100"
proof -
  let ?canon = "JObj [(''id'', JStr ''10%off''), (''description'', JStr ''10% off''),
                (''bankName'', JStr ''AXIS''), (''paymentInstrument'', JStr ''CREDIT''),
                (''discountType'', JStr ''PERCENTAGE''), (''discountValue'', JNum 10),
                (''maxDiscount'', JNull), (''minTxnValue'', JNum 0)]"
  have m: "get_prop zero_cap_entry ''maxDiscount'' = Inr (JNum 0)"
    by (simp add: zero_cap_entry_def)
  have f: "\<not> truthy (JNum 0)" by simp
  have "field ?canon ''maxDiscount'' = JNull"
    using falsy_maxDiscount_is_no_cap [of zero_cap_entry ?canon "JNum 0"]
      zero_cap_entry_record m f by blast
  with zero_cap_entry_record
  have r: "\<exists>canon. canonical_offer zero_cap_entry = Inr canon \<and>
      field canon ''maxDiscount'' = JNull"
    by (intro exI conjI)
  have t: "discountType zero_cap_row = ''PERCENTAGE''"
    and c: "maxDiscount zero_cap_row = Some 0"
    and v: "discountValue zero_cap_row = 10"
    by (simp_all add: zero_cap_row_def)
  have "current_discount (Fin 1000) zero_cap_row =
      js_mul (Fin (discountValue zero_cap_row / 100)) (Fin 1000)"
    using falsy_maxDiscount_is_no_cap [of _ _ _ zero_cap_row "Fin 1000"] t c by blast
  then have d: "current_discount (Fin 1000) zero_cap_row = Fin 100"
    by (simp add: v)
  show ?thesis by (intro conjI m r t c d)
qed

section \<open>The highest discount\<close>













section \<open>Validation of GET /highest-discount\<close>














end
